theory Spec2Isabelle
  imports Main
begin

section \<open>Python strings and paths used by \<^verbatim>\<open>backend/app.py\<close>\<close>

text \<open>
  A Python \<^verbatim>\<open>str\<close> is a \<^typ>\<open>string\<close>: an ASCII character is itself, any other
  character is the bytes of its UTF-8 encoding, all of them above 127. The handlers compare
  an uploaded name with the empty string, test whether its lower-cased form ends in
  \<^verbatim>\<open>.docx\<close> or \<^verbatim>\<open>.pdf\<close>, copy it into their answers and hand it to werkzeug's
  \<^verbatim>\<open>secure_filename\<close>. \<^verbatim>\<open>str.lower\<close> is written for what the suffix test reads: it maps
  \<^verbatim>\<open>A-Z\<close> to \<^verbatim>\<open>a-z\<close>, and no character outside ASCII becomes one of the characters of
  \<^verbatim>\<open>.docx\<close> and \<^verbatim>\<open>.pdf\<close>. The Unicode normalisation at the start of
  \<^verbatim>\<open>secure_filename\<close> is not written out: it is an argument of the model.
\<close>

definition lower_char :: "char \<Rightarrow> char" where
  "lower_char c =
     (case map_of (zip ''ABCDEFGHIJKLMNOPQRSTUVWXYZ'' ''abcdefghijklmnopqrstuvwxyz'') c of
        Some l \<Rightarrow> l
      | None \<Rightarrow> c)"

definition lower :: "string \<Rightarrow> string" where
  "lower s = map lower_char s"

definition endswith :: "string \<Rightarrow> string \<Rightarrow> bool" where
  "endswith s suffix =
     (length suffix \<le> length s \<and> drop (length s - length suffix) s = suffix)"

definition is_ascii :: "char \<Rightarrow> bool" where
  "is_ascii c = (\<not> digit7 c)"

text \<open>The ASCII characters for which \<^verbatim>\<open>str.isspace\<close> holds.\<close>

definition is_space :: "char \<Rightarrow> bool" where
  "is_space c = (c \<in> set [CHR 0x09, CHR 0x0A, CHR 0x0B, CHR 0x0C, CHR 0x0D,
                           CHR 0x1C, CHR 0x1D, CHR 0x1E, CHR 0x1F, CHR '' ''])"

text \<open>\<^verbatim>\<open>s.split()\<close>: the maximal runs of characters that are not white space.\<close>

fun split_ws :: "string \<Rightarrow> string \<Rightarrow> string list" where
  "split_ws cur [] = (if cur = [] then [] else [cur])"
| "split_ws cur (c # cs) =
     (if is_space c then (if cur = [] then split_ws [] cs else cur # split_ws [] cs)
      else split_ws (cur @ [c]) cs)"

text \<open>\<^verbatim>\<open>s.split(sep)\<close> for a single character: empty pieces are kept.\<close>

fun split_on :: "char \<Rightarrow> string \<Rightarrow> string \<Rightarrow> string list" where
  "split_on sep cur [] = [cur]"
| "split_on sep cur (c # cs) =
     (if c = sep then cur # split_on sep [] cs else split_on sep (cur @ [c]) cs)"

fun join :: "string \<Rightarrow> string list \<Rightarrow> string" where
  "join sep [] = []"
| "join sep [x] = x"
| "join sep (x # y # ys) = x @ sep @ join sep (y # ys)"

text \<open>\<^verbatim>\<open>s.strip(chars)\<close> and \<^verbatim>\<open>s.strip()\<close>.\<close>

definition strip_chars :: "string \<Rightarrow> string \<Rightarrow> string" where
  "strip_chars chars s =
     rev (dropWhile (\<lambda>c. c \<in> set chars) (rev (dropWhile (\<lambda>c. c \<in> set chars) s)))"

definition strip :: "string \<Rightarrow> string" where
  "strip s = rev (dropWhile is_space (rev (dropWhile is_space s)))"

text \<open>
  \<^verbatim>\<open>werkzeug.utils.secure_filename\<close> on a POSIX host (the server looks for LibreOffice
  in macOS locations). Its first step,
  \<^verbatim>\<open>unicodedata.normalize("NFKD", filename).encode("ascii", "ignore").decode("ascii")\<close>,
  is the argument \<open>normalise\<close>: it leaves an ASCII name as it is, and turns any other
  name into an ASCII one as the Unicode tables say. The rest is as in werkzeug: turn
  \<^verbatim>\<open>/\<close> into a blank, join the white-space separated pieces with \<^verbatim>\<open>_\<close>, delete every
  character outside \<^verbatim>\<open>[A-Za-z0-9_.-]\<close>, strip dots and underscores from both ends.
\<close>

definition secure_filename :: "(string \<Rightarrow> string) \<Rightarrow> string \<Rightarrow> string" where
  "secure_filename normalise filename =
     (let ascii = normalise filename;
          spaced = map (\<lambda>c. if c = CHR ''/'' then CHR '' '' else c) ascii;
          joined = join ''_'' (split_ws [] spaced);
          kept = filter (\<lambda>c. c \<in> set
            ''ABCDEFGHIJKLMNOPQRSTUVWXYZabcdefghijklmnopqrstuvwxyz0123456789_.-'') joined
      in strip_chars ''._'' kept)"

text \<open>
  Paths are the strings \<^verbatim>\<open>str(path)\<close> gives. \<^verbatim>\<open>folder / name\<close> is written for a
  relative \<^verbatim>\<open>name\<close> without separators, which is what the handlers pass
  (an identifier, an underscore and a sanitised file name).
\<close>

definition path_join :: "string \<Rightarrow> string \<Rightarrow> string" where
  "path_join folder name = folder @ ''/'' @ name"

text \<open>\<^verbatim>\<open>Path(p).name\<close>: the last component; empty and \<^verbatim>\<open>.\<close> components do not count.\<close>

definition path_name :: "string \<Rightarrow> string" where
  "path_name p =
     (case filter (\<lambda>c. c \<noteq> [] \<and> c \<noteq> ''.'') (split_on CHR ''/'' [] p) of
        [] \<Rightarrow> []
      | c # cs \<Rightarrow> last (c # cs))"

text \<open>\<^verbatim>\<open>name.rfind('.')\<close>, with \<open>None\<close> for Python's \<open>-1\<close>.\<close>

definition rfind_dot :: "string \<Rightarrow> nat option" where
  "rfind_dot name =
     (if CHR ''.'' \<in> set name
      then Some (length name - 1 - length (takeWhile (\<lambda>c. c \<noteq> CHR ''.'') (rev name)))
      else None)"

text \<open>
  \<^verbatim>\<open>Path(p).stem\<close>: the name up to its last dot, when that dot is neither the first
  nor the last character of the name.
\<close>

definition path_stem :: "string \<Rightarrow> string" where
  "path_stem p =
     (let name = path_name p in
      case rfind_dot name of
        None \<Rightarrow> name
      | Some i \<Rightarrow> if 0 < i \<and> i < length name - 1 then take i name else name)"

definition UPLOAD_FOLDER :: string where
  "UPLOAD_FOLDER = ''uploads''"

definition CONVERTED_FOLDER :: string where
  "CONVERTED_FOLDER = ''converted''"

text \<open>\<^verbatim>\<open>repr\<close> of a string that needs no escaping, as it stands in an error message.\<close>

definition py_repr :: "string \<Rightarrow> string" where
  "py_repr s = [CHR 0x27] @ s @ [CHR 0x27]"


section \<open>The state of the server\<close>

text \<open>
  A file on disk holds bytes, or is an archive written by \<^verbatim>\<open>zipfile\<close>: the list of its
  entries (archive name and content) in the order they were written.
\<close>

datatype file_content = Data string | ZipArchive "(string \<times> file_content) list"

text \<open>
  The values of \<^verbatim>\<open>conversion_status\<close> are dicts with the key \<^verbatim>\<open>status\<close>
  (\<^verbatim>\<open>'processing'\<close>, \<^verbatim>\<open>'completed'\<close> or \<^verbatim>\<open>'error'\<close>) and some of the keys
  \<^verbatim>\<open>progress\<close>, \<^verbatim>\<open>output_file\<close>, \<^verbatim>\<open>original_name\<close> and \<^verbatim>\<open>message\<close>;
  a key that is absent is \<open>None\<close>.
\<close>

datatype job_status = Processing | Completed | Error

record job =
  status :: job_status
  progress :: "int option"
  output_file :: "string option"
  original_name :: "string option"
  message :: "string option"

text \<open>
  The module's global dict, the disk, and the lines printed so far.
\<close>

record world =
  conversion_status :: "string \<rightharpoonup> job"
  files :: "string \<rightharpoonup> file_content"
  console :: "string list"

datatype exn = FileNotFoundError string | OSError string | KeyError string

text \<open>\<^verbatim>\<open>str(e)\<close>.\<close>

fun str_exn :: "exn \<Rightarrow> string" where
  "str_exn (FileNotFoundError m) = m"
| "str_exn (OSError m) = m"
| "str_exn (KeyError k) = py_repr k"

text \<open>The three dict literals the handlers store.\<close>

definition processing_job :: job where
  "processing_job =
     \<lparr>status = Processing, progress = Some 0, output_file = None, original_name = None,
      message = None\<rparr>"

definition error_job :: "string \<Rightarrow> job" where
  "error_job m =
     \<lparr>status = Error, progress = None, output_file = None, original_name = None,
      message = Some m\<rparr>"

definition completed_job :: "string \<Rightarrow> string \<Rightarrow> job" where
  "completed_job final_output display =
     \<lparr>status = Completed, progress = Some 100, output_file = Some final_output,
      original_name = Some display, message = None\<rparr>"

text \<open>\<^verbatim>\<open>conversion_status[file_id] = record\<close>.\<close>

definition put_status :: "string \<Rightarrow> job \<Rightarrow> world \<Rightarrow> world" where
  "put_status file_id j w = w\<lparr>conversion_status := (conversion_status w)(file_id \<mapsto> j)\<rparr>"

text \<open>\<^verbatim>\<open>conversion_status[file_id]['progress'] = n\<close>; a missing identifier is a KeyError.\<close>

definition set_progress :: "string \<Rightarrow> int \<Rightarrow> world \<Rightarrow> exn + world" where
  "set_progress file_id n w =
     (case conversion_status w file_id of
        None \<Rightarrow> Inl (KeyError file_id)
      | Some j \<Rightarrow> Inr (put_status file_id (j\<lparr>progress := Some n\<rparr>) w))"

definition print_line :: "string \<Rightarrow> world \<Rightarrow> world" where
  "print_line msg w = w\<lparr>console := console w @ [msg]\<rparr>"

definition path_exists :: "world \<Rightarrow> string \<Rightarrow> bool" where
  "path_exists w p = (files w p \<noteq> None)"

definition write_file :: "string \<Rightarrow> file_content \<Rightarrow> world \<Rightarrow> world" where
  "write_file p c w = w\<lparr>files := (files w)(p \<mapsto> c)\<rparr>"

fun write_all :: "(string \<times> file_content) list \<Rightarrow> world \<Rightarrow> world" where
  "write_all [] w = w"
| "write_all ((p, c) # ws) w = write_all ws (write_file p c w)"

text \<open>\<^verbatim>\<open>src.rename(dst)\<close> and \<^verbatim>\<open>p.unlink()\<close>: both raise when the file is not there.\<close>

definition rename_file :: "string \<Rightarrow> string \<Rightarrow> world \<Rightarrow> exn + world" where
  "rename_file src dst w =
     (case files w src of
        None \<Rightarrow> Inl (FileNotFoundError
          (''[Errno 2] No such file or directory: '' @ py_repr src @ '' -> '' @ py_repr dst))
      | Some c \<Rightarrow> Inr (w\<lparr>files := ((files w)(src := None))(dst \<mapsto> c)\<rparr>))"

definition unlink_file :: "string \<Rightarrow> world \<Rightarrow> exn + world" where
  "unlink_file p w =
     (case files w p of
        None \<Rightarrow> Inl (FileNotFoundError (''[Errno 2] No such file or directory: '' @ py_repr p))
      | Some c \<Rightarrow> Inr (w\<lparr>files := (files w)(p := None)\<rparr>))"


section \<open>What a request brings with it\<close>

record upload =
  filename :: string
  payload :: string

text \<open>
  The outcome of \<^verbatim>\<open>subprocess.run(['which', 'soffice'], ...)\<close>: an exception, or a
  return code with the text on standard output.
\<close>

datatype which_outcome = WhichRaised | WhichExit int string

text \<open>
  The outcome of \<^verbatim>\<open>subprocess.run(cmd, ..., timeout=60)\<close>: \<^verbatim>\<open>TimeoutExpired\<close>, another
  exception (with its message), or a return code with the text on standard error.
\<close>

datatype run_result = TimeoutExpired | RunRaised string | CompletedProcess int string

text \<open>
  Everything outside the program that one conversion depends on: the identifier
  \<^verbatim>\<open>uuid.uuid4()\<close> draws, whether \<^verbatim>\<open>file.save\<close> raises, what \<^verbatim>\<open>which\<close> answers, what
  the LibreOffice process (given the command line and the timeout) writes and how it ends,
  whether \<^verbatim>\<open>pdf2docx\<close> raises and what it writes to its output path, and the Unicode
  normalisation that \<^verbatim>\<open>secure_filename\<close> starts with.
\<close>

record conv_env =
  nfkd_ascii :: "string \<Rightarrow> string"
  uuid4 :: string
  save_raises :: "string option"
  which_soffice :: which_outcome
  run_soffice :: "string list \<Rightarrow> nat \<Rightarrow> (string \<times> file_content) list \<times> run_result"
  pdf2docx_raises :: "string option"
  pdf2docx_writes :: "file_content option"


section \<open>The converter gateway\<close>

definition possible_paths :: "string list" where
  "possible_paths =
     [''/Applications/LibreOffice.app/Contents/MacOS/soffice'',
      ''/usr/local/bin/soffice'',
      ''/opt/homebrew/bin/soffice'']"

definition find_libreoffice :: "conv_env \<Rightarrow> world \<Rightarrow> string option" where
  "find_libreoffice env w =
     (case find (path_exists w) possible_paths of
        Some p \<Rightarrow> Some p
      | None \<Rightarrow>
          (case which_soffice env of
             WhichRaised \<Rightarrow> None
           | WhichExit returncode out \<Rightarrow> if returncode = 0 then Some (strip out) else None))"

definition not_found_message :: string where
  "not_found_message =
     ''LibreOffice not found. Please install LibreOffice from https://www.libreoffice.org/download/''"

definition soffice_cmd :: "string \<Rightarrow> string \<Rightarrow> string \<Rightarrow> string \<Rightarrow> string list" where
  "soffice_cmd soffice_path input_file output_dir output_format =
     [soffice_path, ''--headless'', ''--convert-to'',
      (if output_format = ''pdf'' then output_format @ '':'' @ ''writer_pdf_Export''
       else output_format),
      ''--outdir'', output_dir, input_file]"

text \<open>
  \<^verbatim>\<open>convert_with_libreoffice\<close> returns the converted path or \<open>None\<close>, or raises
  \<^verbatim>\<open>FileNotFoundError\<close> before its \<^verbatim>\<open>try\<close> block when no executable is found (an empty
  path counts as not found).
\<close>

definition convert_with_libreoffice ::
  "conv_env \<Rightarrow> string \<Rightarrow> string \<Rightarrow> string \<Rightarrow> world \<Rightarrow> (exn + string option) \<times> world" where
  "convert_with_libreoffice env input_file output_dir output_format w =
     (case find_libreoffice env w of
        None \<Rightarrow> (Inl (FileNotFoundError not_found_message), w)
      | Some soffice_path \<Rightarrow>
          if soffice_path = [] then (Inl (FileNotFoundError not_found_message), w)
          else
            (case run_soffice env
                    (soffice_cmd soffice_path input_file output_dir output_format) 60 of
               (written, result) \<Rightarrow>
                 (let w1 = write_all written w in
                  case result of
                    TimeoutExpired \<Rightarrow> (Inr None, print_line ''Conversion timeout'' w1)
                  | RunRaised e \<Rightarrow> (Inr None, print_line (''Conversion error: '' @ e) w1)
                  | CompletedProcess returncode err \<Rightarrow>
                      if returncode \<noteq> 0
                      then (Inr None, print_line (''LibreOffice conversion error: '' @ err) w1)
                      else
                        (let converted_file =
                               path_join output_dir (path_stem input_file @ ''.'' @ output_format)
                         in if path_exists w1 converted_file
                            then (Inr (Some converted_file), w1)
                            else (Inr None,
                                  print_line (''Converted file not found: '' @ converted_file) w1)))))"


section \<open>Responses\<close>

text \<open>
  One entry of the batch result: \<^verbatim>\<open>{'filename', 'error'}\<close> or
  \<^verbatim>\<open>{'filename', 'file_id', 'status': 'completed', 'original_name'}\<close>.
\<close>

datatype batch_entry =
    BatchError string string
  | BatchCompleted string string string

fun entry_filename :: "batch_entry \<Rightarrow> string" where
  "entry_filename (BatchError name reason) = name"
| "entry_filename (BatchCompleted name file_id display) = name"

text \<open>
  \<open>JsonError code msg\<close> is \<^verbatim>\<open>jsonify({'error': msg}), code\<close>;
  \<open>JsonConverted file_id display\<close> is the body
  \<^verbatim>\<open>{'file_id', 'status': 'completed', 'original_name'}\<close>;
  \<open>SendFile path name\<close> is \<^verbatim>\<open>send_file(path, as_attachment=True, download_name=name)\<close>;
  \<open>Unhandled e\<close> is an exception that leaves the handler (the framework answers 500).
\<close>

datatype response =
    JsonError nat string
  | JsonConverted string string
  | JsonResults "batch_entry list"
  | JsonJob job
  | SendFile string string
  | Unhandled exn


section \<open>Single-file conversion\<close>

text \<open>The body of the \<^verbatim>\<open>try\<close> block of \<^verbatim>\<open>convert_docx_to_pdf\<close>.\<close>

definition docx_to_pdf_try :: "conv_env \<Rightarrow> upload \<Rightarrow> world \<Rightarrow> (exn + response) \<times> world" where
  "docx_to_pdf_try env file w0 =
     (let file_id = uuid4 env;
          w1 = put_status file_id processing_job w0;
          fname = secure_filename (nfkd_ascii env) (filename file);
          input_path = path_join UPLOAD_FOLDER (file_id @ ''_'' @ fname)
      in case save_raises env of
           Some m \<Rightarrow> (Inl (OSError m), w1)
         | None \<Rightarrow>
             (let w2 = write_file input_path (Data (payload file)) w1 in
              case set_progress file_id 30 w2 of
                Inl e \<Rightarrow> (Inl e, w2)
              | Inr w3 \<Rightarrow>
                  (case convert_with_libreoffice env input_path CONVERTED_FOLDER ''pdf'' w3 of
                     (Inl e, w4) \<Rightarrow> (Inl e, w4)
                   | (Inr None, w4) \<Rightarrow>
                       (Inr (JsonError 500 ''Conversion failed''),
                        put_status file_id (error_job ''Conversion failed'') w4)
                   | (Inr (Some output_path), w4) \<Rightarrow>
                       (let final_output =
                              path_join CONVERTED_FOLDER
                                (file_id @ ''_'' @ path_stem fname @ ''.pdf'')
                        in case rename_file output_path final_output w4 of
                             Inl e \<Rightarrow> (Inl e, w4)
                           | Inr w5 \<Rightarrow>
                               (let w6 = put_status file_id
                                           (completed_job final_output (path_stem fname @ ''.pdf''))
                                           w5
                                in case unlink_file input_path w6 of
                                     Inl e \<Rightarrow> (Inl e, w6)
                                   | Inr w7 \<Rightarrow>
                                       (Inr (JsonConverted file_id (path_stem fname @ ''.pdf'')),
                                        w7))))))"

text \<open>
  \<^verbatim>\<open>convert_docx_to_pdf\<close>; the request either has no part named \<^verbatim>\<open>file\<close> or one upload.
\<close>

definition convert_docx_to_pdf :: "conv_env \<Rightarrow> upload option \<Rightarrow> world \<Rightarrow> response \<times> world" where
  "convert_docx_to_pdf env req w =
     (case req of
        None \<Rightarrow> (JsonError 400 ''No file provided'', w)
      | Some file \<Rightarrow>
          if filename file = [] then (JsonError 400 ''No file selected'', w)
          else if \<not> endswith (lower (filename file)) ''.docx''
          then (JsonError 400 ''File must be a .docx document'', w)
          else
            (case docx_to_pdf_try env file w of
               (Inl e, w') \<Rightarrow>
                 (JsonError 500 (str_exn e), print_line (''Error: '' @ str_exn e) w')
             | (Inr r, w') \<Rightarrow> (r, w')))"

text \<open>The body of the \<^verbatim>\<open>try\<close> block of \<^verbatim>\<open>convert_pdf_to_docx\<close>, which uses pdf2docx.\<close>

definition pdf_to_docx_try :: "conv_env \<Rightarrow> upload \<Rightarrow> world \<Rightarrow> (exn + response) \<times> world" where
  "pdf_to_docx_try env file w0 =
     (let file_id = uuid4 env;
          w1 = put_status file_id processing_job w0;
          fname = secure_filename (nfkd_ascii env) (filename file);
          input_path = path_join UPLOAD_FOLDER (file_id @ ''_'' @ fname)
      in case save_raises env of
           Some m \<Rightarrow> (Inl (OSError m), w1)
         | None \<Rightarrow>
             (let w2 = write_file input_path (Data (payload file)) w1 in
              case set_progress file_id 30 w2 of
                Inl e \<Rightarrow> (Inl e, w2)
              | Inr w3 \<Rightarrow>
                  (let filename_stem = path_stem fname;
                       final_output =
                         path_join CONVERTED_FOLDER (file_id @ ''_'' @ filename_stem @ ''.docx'');
                       w4 = (case pdf2docx_writes env of
                               None \<Rightarrow> w3
                             | Some c \<Rightarrow> write_file final_output c w3)
                   in case pdf2docx_raises env of
                        Some e \<Rightarrow>
                          (Inr (JsonError 500 (''Conversion failed: '' @ e)),
                           put_status file_id (error_job (''Conversion failed: '' @ e))
                             (print_line (''pdf2docx error: '' @ e) w4))
                      | None \<Rightarrow>
                          (let w5 = put_status file_id
                                      (completed_job final_output (filename_stem @ ''.docx'')) w4
                           in case unlink_file input_path w5 of
                                Inl e \<Rightarrow> (Inl e, w5)
                              | Inr w6 \<Rightarrow>
                                  (Inr (JsonConverted file_id (filename_stem @ ''.docx'')),
                                   w6)))))"

definition convert_pdf_to_docx :: "conv_env \<Rightarrow> upload option \<Rightarrow> world \<Rightarrow> response \<times> world" where
  "convert_pdf_to_docx env req w =
     (case req of
        None \<Rightarrow> (JsonError 400 ''No file provided'', w)
      | Some file \<Rightarrow>
          if filename file = [] then (JsonError 400 ''No file selected'', w)
          else if \<not> endswith (lower (filename file)) ''.pdf''
          then (JsonError 400 ''File must be a .pdf document'', w)
          else
            (case pdf_to_docx_try env file w of
               (Inl e, w') \<Rightarrow>
                 (JsonError 500 (str_exn e), print_line (''Error: '' @ str_exn e) w')
             | (Inr r, w') \<Rightarrow> (r, w')))"


section \<open>Batch conversion\<close>

text \<open>
  The body of the \<^verbatim>\<open>try\<close> block inside the loop of \<^verbatim>\<open>convert_batch\<close>: it ends with the
  entry it appends (the \<^verbatim>\<open>continue\<close> after a failed conversion, or the end of the block)
  or with an exception.
\<close>

definition batch_try ::
  "string \<Rightarrow> conv_env \<Rightarrow> upload \<Rightarrow> world \<Rightarrow> (exn + batch_entry) \<times> world" where
  "batch_try direction env file w0 =
     (let file_id = uuid4 env;
          w1 = put_status file_id processing_job w0;
          fname = secure_filename (nfkd_ascii env) (filename file);
          input_path = path_join UPLOAD_FOLDER (file_id @ ''_'' @ fname)
      in case save_raises env of
           Some m \<Rightarrow> (Inl (OSError m), w1)
         | None \<Rightarrow>
             (let w2 = write_file input_path (Data (payload file)) w1;
                  output_format = (if direction = ''docx-to-pdf'' then ''pdf'' else ''docx'')
              in case convert_with_libreoffice env input_path CONVERTED_FOLDER output_format w2 of
                   (Inl e, w3) \<Rightarrow> (Inl e, w3)
                 | (Inr None, w3) \<Rightarrow>
                     (Inr (BatchError (filename file) ''Conversion failed''), w3)
                 | (Inr (Some output_path), w3) \<Rightarrow>
                     (let final_output =
                            path_join CONVERTED_FOLDER
                              (file_id @ ''_'' @ path_stem fname @ ''.'' @ output_format)
                      in case rename_file output_path final_output w3 of
                           Inl e \<Rightarrow> (Inl e, w3)
                         | Inr w4 \<Rightarrow>
                             (let w5 = put_status file_id
                                         (completed_job final_output
                                            (path_stem fname @ ''.'' @ output_format)) w4
                              in case unlink_file input_path w5 of
                                   Inl e \<Rightarrow> (Inl e, w5)
                                 | Inr w6 \<Rightarrow>
                                     (Inr (BatchCompleted (filename file) file_id
                                             (path_stem fname @ ''.'' @ output_format)),
                                      w6)))))"

text \<open>
  The loop \<^verbatim>\<open>for file in files\<close>, each file with what its conversion will meet outside
  the program.
\<close>

fun batch_loop ::
  "string \<Rightarrow> (upload \<times> conv_env) list \<Rightarrow> batch_entry list \<Rightarrow> world \<Rightarrow> batch_entry list \<times> world"
  where
  "batch_loop direction [] results w = (results, w)"
| "batch_loop direction ((file, env) # rest) results w =
     (if filename file = [] then batch_loop direction rest results w
      else if direction = ''docx-to-pdf'' \<and> \<not> endswith (lower (filename file)) ''.docx''
      then batch_loop direction rest
             (results @ [BatchError (filename file) ''Invalid file type'']) w
      else if direction \<noteq> ''docx-to-pdf'' \<and> \<not> endswith (lower (filename file)) ''.pdf''
      then batch_loop direction rest
             (results @ [BatchError (filename file) ''Invalid file type'']) w
      else
        (case batch_try direction env file w of
           (Inl e, w') \<Rightarrow>
             batch_loop direction rest (results @ [BatchError (filename file) (str_exn e)]) w'
         | (Inr entry, w') \<Rightarrow> batch_loop direction rest (results @ [entry]) w'))"

text \<open>
  \<^verbatim>\<open>convert_batch\<close>: the uploads under the field \<^verbatim>\<open>files\<close> (none: the field is absent) and
  the form field \<^verbatim>\<open>direction\<close>, if given.
\<close>

definition convert_batch ::
  "(upload \<times> conv_env) list \<Rightarrow> string option \<Rightarrow> world \<Rightarrow> response \<times> world" where
  "convert_batch uploads direction_field w =
     (if uploads = [] then (JsonError 400 ''No files provided'', w)
      else
        (let direction = (case direction_field of None \<Rightarrow> ''docx-to-pdf'' | Some d \<Rightarrow> d)
         in case batch_loop direction uploads [] w of
              (results, w') \<Rightarrow> (JsonResults results, w')))"


section \<open>Download and status\<close>

definition download_file :: "string \<Rightarrow> world \<Rightarrow> response" where
  "download_file file_id w =
     (case conversion_status w file_id of
        None \<Rightarrow> JsonError 404 ''File not found''
      | Some st \<Rightarrow>
          if status st \<noteq> Completed then JsonError 400 ''File not ready''
          else
            (case output_file st of
               None \<Rightarrow> Unhandled (KeyError ''output_file'')
             | Some out \<Rightarrow>
                 if \<not> path_exists w out then JsonError 404 ''File not found''
                 else
                   (case original_name st of
                      None \<Rightarrow> Unhandled (KeyError ''original_name'')
                    | Some display \<Rightarrow> SendFile out display)))"

text \<open>
  The loop of \<^verbatim>\<open>download_bulk\<close> over the identifiers, with the entries written so far; an
  exception ends it.
\<close>

fun zip_loop ::
  "world \<Rightarrow> string list \<Rightarrow> (string \<times> file_content) list
     \<Rightarrow> exn option \<times> (string \<times> file_content) list" where
  "zip_loop w [] entries = (None, entries)"
| "zip_loop w (file_id # rest) entries =
     (case conversion_status w file_id of
        None \<Rightarrow> zip_loop w rest entries
      | Some st \<Rightarrow>
          if status st = Completed
          then
            (case output_file st of
               None \<Rightarrow> (Some (KeyError ''output_file''), entries)
             | Some out \<Rightarrow>
                 (case files w out of
                    None \<Rightarrow> zip_loop w rest entries
                  | Some c \<Rightarrow>
                      (case original_name st of
                         None \<Rightarrow> (Some (KeyError ''original_name''), entries)
                       | Some display \<Rightarrow> zip_loop w rest (entries @ [(display, c)]))))
          else zip_loop w rest entries)"

definition zip_path :: "string \<Rightarrow> string" where
  "zip_path zip_id = path_join CONVERTED_FOLDER (zip_id @ ''_converted_files.zip'')"

text \<open>
  \<^verbatim>\<open>download_bulk\<close> with the parsed list of identifiers (empty when the key is absent) and
  the identifier drawn for the archive. Opening the archive for writing creates it empty.
\<close>

definition download_bulk :: "string \<Rightarrow> string list \<Rightarrow> world \<Rightarrow> response \<times> world" where
  "download_bulk zip_id file_ids w =
     (if file_ids = [] then (JsonError 400 ''No files specified'', w)
      else
        (let w1 = write_file (zip_path zip_id) (ZipArchive []) w in
         case zip_loop w1 file_ids [] of
           (Some e, entries) \<Rightarrow>
             (Unhandled e, write_file (zip_path zip_id) (ZipArchive entries) w1)
         | (None, entries) \<Rightarrow>
             (SendFile (zip_path zip_id) ''converted_files.zip'',
              write_file (zip_path zip_id) (ZipArchive entries) w1)))"

definition get_status :: "string \<Rightarrow> world \<Rightarrow> response \<times> world" where
  "get_status file_id w =
     (case conversion_status w file_id of
        None \<Rightarrow> (JsonError 404 ''File not found'', w)
      | Some st \<Rightarrow> (JsonJob st, w))"

text \<open>\<open>poll n\<close>: the answers of \<open>n\<close> status queries in a row, and the state after them.\<close>

fun poll :: "nat \<Rightarrow> string \<Rightarrow> world \<Rightarrow> response list \<times> world" where
  "poll 0 file_id w = ([], w)"
| "poll (Suc n) file_id w =
     (case get_status file_id w of
        (r, w') \<Rightarrow> (case poll n file_id w' of (rs, w'') \<Rightarrow> (r # rs, w'')))"


section \<open>The states the server can be in\<close>

text \<open>
  The server starts with an empty \<^verbatim>\<open>conversion_status\<close>; every request handler that
  writes to the state takes it to the next one; anything else may change the disk.
\<close>

inductive reachable :: "world \<Rightarrow> bool" where
  start: "conversion_status w = Map.empty \<Longrightarrow> reachable w"
| docx_to_pdf: "reachable w \<Longrightarrow> reachable (snd (convert_docx_to_pdf env req w))"
| pdf_to_docx: "reachable w \<Longrightarrow> reachable (snd (convert_pdf_to_docx env req w))"
| batch: "reachable w \<Longrightarrow> reachable (snd (convert_batch uploads direction_field w))"
| bulk: "reachable w \<Longrightarrow> reachable (snd (download_bulk zip_id file_ids w))"
| status_query: "reachable w \<Longrightarrow> reachable (snd (get_status file_id w))"
| disk: "reachable w \<Longrightarrow> reachable (w\<lparr>files := fs\<rparr>)"


section \<open>Concrete requests\<close>

text \<open>
  Three behaviours of the LibreOffice process: it writes the converted file where
  \<^verbatim>\<open>--outdir\<close> and the name of the input say and ends with code 0; it ends with code 1
  and writes nothing; it runs into the timeout; it ends with code 0 and writes nothing;
  it cannot be started.
\<close>

fun soffice_ok :: "string list \<Rightarrow> nat \<Rightarrow> (string \<times> file_content) list \<times> run_result" where
  "soffice_ok [exe, headless, convert_to, fmt, outdir_flag, outdir, input] t =
     ([(path_join outdir (path_stem input @ ''.'' @ takeWhile (\<lambda>c. c \<noteq> CHR '':'') fmt),
        Data ''converted'')], CompletedProcess 0 [])"
| "soffice_ok cmd t = ([], CompletedProcess 1 ''bad arguments'')"

definition soffice_fails ::
  "string list \<Rightarrow> nat \<Rightarrow> (string \<times> file_content) list \<times> run_result" where
  "soffice_fails cmd t = ([], CompletedProcess 1 ''Error: source file could not be loaded'')"

definition soffice_hangs ::
  "string list \<Rightarrow> nat \<Rightarrow> (string \<times> file_content) list \<times> run_result" where
  "soffice_hangs cmd t = ([], TimeoutExpired)"

definition soffice_silent ::
  "string list \<Rightarrow> nat \<Rightarrow> (string \<times> file_content) list \<times> run_result" where
  "soffice_silent cmd t = ([], CompletedProcess 0 [])"

definition soffice_crashes ::
  "string list \<Rightarrow> nat \<Rightarrow> (string \<times> file_content) list \<times> run_result" where
  "soffice_crashes cmd t = ([], RunRaised ''[Errno 8] Exec format error'')"

text \<open>
  The examples upload ASCII names, which the normalisation leaves as they are; their
  environments drop what is not ASCII, as the normalisation does with a character that
  has no ASCII decomposition.
\<close>

definition env_of ::
  "string \<Rightarrow> (string list \<Rightarrow> nat \<Rightarrow> (string \<times> file_content) list \<times> run_result) \<Rightarrow> conv_env"
  where
  "env_of file_id run =
     \<lparr>nfkd_ascii = filter is_ascii, uuid4 = file_id, save_raises = None, which_soffice = WhichExit 1 [], run_soffice = run,
      pdf2docx_raises = None, pdf2docx_writes = Some (Data ''converted'')\<rparr>"

text \<open>An environment in which \<^verbatim>\<open>which soffice\<close> ends with code 0 and prints an empty line.\<close>

definition env_blank :: conv_env where
  "env_blank = (env_of ''id1'' soffice_ok)\<lparr>which_soffice := WhichExit 0 [CHR 0x0A]\<rparr>"

text \<open>A freshly started server on a host with LibreOffice, and one without.\<close>

definition world0 :: world where
  "world0 =
     \<lparr>conversion_status = Map.empty,
      files = [''/usr/local/bin/soffice'' \<mapsto> Data ''soffice''],
      console = []\<rparr>"

definition world_bare :: world where
  "world_bare = \<lparr>conversion_status = Map.empty, files = Map.empty, console = []\<rparr>"

definition upload_plain :: upload where
  "upload_plain = \<lparr>filename = ''a.docx'', payload = ''docx bytes''\<rparr>"

definition upload_spaced :: upload where
  "upload_spaced = \<lparr>filename = ''my report.docx'', payload = ''docx bytes''\<rparr>"

definition upload_unnamed :: upload where
  "upload_unnamed = \<lparr>filename = [], payload = []\<rparr>"

definition upload_text :: upload where
  "upload_text = \<lparr>filename = ''b.txt'', payload = ''text''\<rparr>"

definition upload_upper :: upload where
  "upload_upper = \<lparr>filename = ''c.DOCX'', payload = ''docx bytes''\<rparr>"

text \<open>
  The server after one successful conversion (identifier \<^verbatim>\<open>id1\<close>), and after a failed
  one (identifier \<^verbatim>\<open>id2\<close>) on top of it.
\<close>

definition world_done :: world where
  "world_done = snd (convert_docx_to_pdf (env_of ''id1'' soffice_ok) (Some upload_plain) world0)"

definition world_mixed :: world where
  "world_mixed =
     snd (convert_docx_to_pdf (env_of ''id2'' soffice_fails) (Some upload_plain) world_done)"


section \<open>Predicates on the state\<close>

text \<open>
  An identifier resolves to a completed job whose output file is on disk: the jobs
  \<^verbatim>\<open>download_bulk\<close> puts into the archive.
\<close>

definition has_artifact :: "world \<Rightarrow> string \<Rightarrow> bool" where
  "has_artifact w file_id =
     (case conversion_status w file_id of
        None \<Rightarrow> False
      | Some st \<Rightarrow>
          status st = Completed \<and>
          (case output_file st of None \<Rightarrow> False | Some out \<Rightarrow> path_exists w out))"

text \<open>
  What every stored record looks like: a completed one has an output file whose path ends
  in \<^verbatim>\<open>f\<close> or \<^verbatim>\<open>x\<close> (of \<^verbatim>\<open>.pdf\<close> and \<^verbatim>\<open>.docx\<close>) and a display name; any other has no
  output file.
\<close>

definition job_ok :: "job \<Rightarrow> bool" where
  "job_ok j =
     (if status j = Completed
      then (case output_file j of
              None \<Rightarrow> False
            | Some p \<Rightarrow>
                original_name j \<noteq> None \<and> p \<noteq> [] \<and> (last p = CHR ''f'' \<or> last p = CHR ''x''))
      else output_file j = None)"

definition store_ok :: "world \<Rightarrow> bool" where
  "store_ok w = (\<forall>file_id j. conversion_status w file_id = Some j \<longrightarrow> job_ok j)"


section \<open>Evaluating the handlers\<close>

lemmas string_defs =
  lower_def lower_char_def endswith_def secure_filename_def is_ascii_def is_space_def
  strip_chars_def strip_def path_join_def path_stem_def path_name_def rfind_dot_def
  UPLOAD_FOLDER_def CONVERTED_FOLDER_def py_repr_def

lemmas state_defs =
  put_status_def set_progress_def write_file_def rename_file_def unlink_file_def
  path_exists_def print_line_def processing_job_def completed_job_def error_job_def

lemmas handler_defs =
  convert_docx_to_pdf_def docx_to_pdf_try_def convert_pdf_to_docx_def pdf_to_docx_try_def
  convert_batch_def batch_try_def convert_with_libreoffice_def find_libreoffice_def
  possible_paths_def soffice_cmd_def not_found_message_def download_file_def
  download_bulk_def zip_path_def get_status_def Let_def

lemmas example_defs =
  env_of_def world0_def world_bare_def upload_plain_def upload_spaced_def upload_unnamed_def
  upload_text_def upload_upper_def soffice_fails_def soffice_hangs_def soffice_silent_def
  soffice_crashes_def


section \<open>The stored records\<close>

text \<open>
  The handlers write to \<^verbatim>\<open>conversion_status\<close> only through \<^const>\<open>put_status\<close> and
  \<^const>\<open>set_progress\<close>, and what they store is one of the three literals; the converter,
  the renaming and the removal of files leave the dict alone.
\<close>

lemma write_all_status [simp]: "conversion_status (write_all ws w) = conversion_status w"
  by (induction ws w rule: write_all.induct) (simp_all add: write_file_def)

lemma store_ok_put: "store_ok w \<Longrightarrow> job_ok j \<Longrightarrow> store_ok (put_status file_id j w)"
  by (simp add: store_ok_def put_status_def)

lemma store_ok_write_file [simp]: "store_ok (write_file p c w) = store_ok w"
  by (simp add: store_ok_def write_file_def)

lemma store_ok_print_line [simp]: "store_ok (print_line m w) = store_ok w"
  by (simp add: store_ok_def print_line_def)

lemma store_ok_write_all [simp]: "store_ok (write_all ws w) = store_ok w"
  by (simp add: store_ok_def)

lemma job_ok_progress [simp]: "job_ok (j\<lparr>progress := p\<rparr>) = job_ok j"
  by (simp add: job_ok_def split: option.splits)

lemma cwl_status [simp]:
  "conversion_status (snd (convert_with_libreoffice env a b c w)) = conversion_status w"
  by (simp add: convert_with_libreoffice_def print_line_def Let_def
        split: option.splits prod.splits run_result.splits)

lemma cwl_statusD:
  "convert_with_libreoffice env a b c w = (r, w') \<Longrightarrow> conversion_status w' = conversion_status w"
  using cwl_status [of env a b c w] by simp

lemma rename_statusD:
  "rename_file src dst w = Inr w' \<Longrightarrow> conversion_status w' = conversion_status w"
  by (auto simp: rename_file_def split: option.splits)

lemma unlink_statusD:
  "unlink_file p w = Inr w' \<Longrightarrow> conversion_status w' = conversion_status w"
  by (auto simp: unlink_file_def split: option.splits)

lemma set_progress_statusD:
  "set_progress file_id n w = Inr w' \<Longrightarrow>
     \<exists>j. conversion_status w file_id = Some j \<and>
         conversion_status w' = (conversion_status w)(file_id \<mapsto> j\<lparr>progress := Some n\<rparr>)"
  by (auto simp: set_progress_def put_status_def split: option.splits)

lemma job_ok_literals [simp]:
  "job_ok processing_job" "job_ok (error_job m)"
  "job_ok (completed_job p n') = (p \<noteq> [] \<and> (last p = CHR ''f'' \<or> last p = CHR ''x''))"
  by (simp_all add: job_ok_def processing_job_def error_job_def completed_job_def)

lemma docx_try_store_ok:
  assumes "store_ok w"
  shows "store_ok (snd (docx_to_pdf_try env file w))"
  using assms unfolding docx_to_pdf_try_def Let_def store_ok_def
  by (auto split: option.splits sum.splits prod.splits if_splits
        dest!: cwl_statusD rename_statusD unlink_statusD set_progress_statusD
        simp: put_status_def write_file_def path_join_def)

lemma pdf_try_store_ok:
  assumes "store_ok w"
  shows "store_ok (snd (pdf_to_docx_try env file w))"
  using assms unfolding pdf_to_docx_try_def Let_def store_ok_def
  by (auto split: option.splits sum.splits prod.splits if_splits
        dest!: unlink_statusD set_progress_statusD
        simp: put_status_def write_file_def print_line_def path_join_def)

lemma batch_try_store_ok:
  assumes "store_ok w"
  shows "store_ok (snd (batch_try direction env file w))"
  using assms unfolding batch_try_def Let_def store_ok_def
  by (auto split: option.splits sum.splits prod.splits if_splits
        dest!: cwl_statusD rename_statusD unlink_statusD
        simp: put_status_def write_file_def path_join_def)


lemma batch_loop_store_ok:
  "store_ok w \<Longrightarrow> store_ok (snd (batch_loop direction uploads results w))"
proof (induction direction uploads results w rule: batch_loop.induct)
  case (1 direction results w)
  then show ?case by simp
next
  case (2 direction up env rest results w)
  have "store_ok (snd (batch_try direction env up w))"
    using "2.prems" by (rule batch_try_store_ok)
  with 2 show ?case
    by (auto split: prod.splits sum.splits)
qed

lemma convert_batch_store_ok:
  "store_ok w \<Longrightarrow> store_ok (snd (convert_batch uploads direction_field w))"
  using batch_loop_store_ok
    [of w "case direction_field of None \<Rightarrow> ''docx-to-pdf'' | Some d \<Rightarrow> d" uploads "[]"]
  by (auto simp: convert_batch_def Let_def split: prod.splits)

lemma convert_docx_store_ok:
  assumes "store_ok w"
  shows "store_ok (snd (convert_docx_to_pdf env req w))"
proof (cases req)
  case None
  with assms show ?thesis by (simp add: convert_docx_to_pdf_def)
next
  case (Some up)
  obtain r w' where body: "docx_to_pdf_try env up w = (r, w')"
    by (cases "docx_to_pdf_try env up w")
  with docx_try_store_ok [OF assms, of env up] have "store_ok w'" by simp
  with assms Some body show ?thesis
    by (cases r) (simp_all add: convert_docx_to_pdf_def)
qed

lemma convert_pdf_store_ok:
  assumes "store_ok w"
  shows "store_ok (snd (convert_pdf_to_docx env req w))"
proof (cases req)
  case None
  with assms show ?thesis by (simp add: convert_pdf_to_docx_def)
next
  case (Some up)
  obtain r w' where body: "pdf_to_docx_try env up w = (r, w')"
    by (cases "pdf_to_docx_try env up w")
  with pdf_try_store_ok [OF assms, of env up] have "store_ok w'" by simp
  with assms Some body show ?thesis
    by (cases r) (simp_all add: convert_pdf_to_docx_def)
qed

lemma download_bulk_store_ok:
  "store_ok w \<Longrightarrow> store_ok (snd (download_bulk zip_id file_ids w))"
  by (auto simp: download_bulk_def Let_def split: prod.splits option.splits)

lemma get_status_same [simp]: "snd (get_status file_id w) = w"
  by (simp add: get_status_def split: option.splits)

lemma reachable_store_ok: "reachable w \<Longrightarrow> store_ok w"
proof (induction rule: reachable.induct)
  case (start w)
  then show ?case by (simp add: store_ok_def)
next
  case (disk w fs)
  then show ?case by (simp add: store_ok_def)
qed (simp_all add: convert_docx_store_ok convert_pdf_store_ok convert_batch_store_ok
       download_bulk_store_ok)


section \<open>The example states\<close>

lemma world_done_eq:
  "world_done =
     \<lparr>conversion_status = [''id1'' \<mapsto> completed_job ''converted/id1_a.pdf'' ''a.pdf''],
      files = [''/usr/local/bin/soffice'' \<mapsto> Data ''soffice'',
               ''converted/id1_a.pdf'' \<mapsto> Data ''converted''],
      console = []\<rparr>"
  unfolding world_done_def
  by (simp add: string_defs state_defs handler_defs example_defs fun_eq_iff)

lemma world_mixed_status:
  "conversion_status world_mixed =
     [''id1'' \<mapsto> completed_job ''converted/id1_a.pdf'' ''a.pdf'',
      ''id2'' \<mapsto> error_job ''Conversion failed'']"
  unfolding world_mixed_def world_done_eq
  by (simp add: string_defs state_defs handler_defs example_defs fun_eq_iff)

lemma world_mixed_files:
  "files world_mixed =
     [''/usr/local/bin/soffice'' \<mapsto> Data ''soffice'',
      ''converted/id1_a.pdf'' \<mapsto> Data ''converted'',
      ''uploads/id2_a.docx'' \<mapsto> Data ''docx bytes'']"
  unfolding world_mixed_def world_done_eq
  by (simp add: string_defs state_defs handler_defs example_defs fun_eq_iff)

lemma reachable_world0: "reachable world0"
  by (rule reachable.start) (simp add: world0_def)

lemma reachable_world_done: "reachable world_done"
  unfolding world_done_def by (rule reachable.docx_to_pdf) (rule reachable_world0)

lemma reachable_world_mixed: "reachable world_mixed"
  unfolding world_mixed_def by (rule reachable.docx_to_pdf) (rule reachable_world_done)


section \<open>C1: the output file and the status\<close>

text \<open>
  C1. In every state the server reaches, a record of the job store has the key
  \<^verbatim>\<open>output_file\<close> if and only if its status is \<^verbatim>\<open>completed\<close>; a record that is
  \<^verbatim>\<open>processing\<close> or \<^verbatim>\<open>error\<close> has none. (The records a handler stores on its way,
  \<^const>\<open>processing_job\<close> and its progress update, satisfy the same: see
  \<open>job_ok_literals\<close> and \<open>job_ok_progress\<close>.)
\<close>

theorem output_file_iff_completed:
  assumes "reachable w" and "conversion_status w file_id = Some j"
  shows "(output_file j \<noteq> None) = (status j = Completed)"
proof -
  have "job_ok j"
    using reachable_store_ok [OF assms(1)] assms(2) by (simp add: store_ok_def)
  then show ?thesis
    by (auto simp: job_ok_def split: if_splits option.splits)
qed

theorem output_file_iff_completed_witness:
  "reachable world_mixed
   \<and> conversion_status world_mixed ''id1'' = Some (completed_job ''converted/id1_a.pdf'' ''a.pdf'')
   \<and> output_file (completed_job ''converted/id1_a.pdf'' ''a.pdf'') \<noteq> None
   \<and> status (completed_job ''converted/id1_a.pdf'' ''a.pdf'') = Completed
   \<and> conversion_status world_mixed ''id2'' = Some (error_job ''Conversion failed'')
   \<and> output_file (error_job ''Conversion failed'') = None
   \<and> status (error_job ''Conversion failed'') \<noteq> Completed"
proof -
  have a: "conversion_status world_mixed ''id1'' =
      Some (completed_job ''converted/id1_a.pdf'' ''a.pdf'')"
    by (simp add: world_mixed_status)
  have b: "conversion_status world_mixed ''id2'' = Some (error_job ''Conversion failed'')"
    by (simp add: world_mixed_status)
  show ?thesis
    using a b output_file_iff_completed [OF reachable_world_mixed a]
      output_file_iff_completed [OF reachable_world_mixed b] reachable_world_mixed
    by (simp add: completed_job_def error_job_def)
qed


section \<open>C2: a failed conversion and the stored status\<close>

text \<open>
  C2. After a conversion has failed, the job is to be stored as failed, on the single-file
  path and on the batch path. \<^const>\<open>docx_to_pdf_try\<close> does store \<^const>\<open>error_job\<close> when the
  converter returns nothing, but \<^const>\<open>batch_try\<close> appends the error entry and goes on to
  the next file without touching the record: a batch of one \<^verbatim>\<open>a.docx\<close> whose LibreOffice
  run ends with code 1 answers \<^verbatim>\<open>Conversion failed\<close> and leaves the job \<^verbatim>\<open>id1\<close>
  stored as \<^verbatim>\<open>processing\<close>.
\<close>

theorem batch_failure_stays_processing:
  "fst (convert_batch [(upload_plain, env_of ''id1'' soffice_fails)] None world0) =
     JsonResults [BatchError ''a.docx'' ''Conversion failed'']
   \<and> conversion_status
        (snd (convert_batch [(upload_plain, env_of ''id1'' soffice_fails)] None world0)) ''id1'' =
     Some processing_job
   \<and> status processing_job = Processing"
  by (simp add: string_defs state_defs handler_defs example_defs)

text \<open>
  The same happens on the single-file path when the failure is an exception: without
  LibreOffice the handler answers 500 and the record stays \<^verbatim>\<open>processing\<close> at 30 percent.
\<close>

lemma docx_without_libreoffice_stays_processing:
  "fst (convert_docx_to_pdf (env_of ''id1'' soffice_ok) (Some upload_plain) world_bare) =
     JsonError 500 not_found_message
   \<and> conversion_status
        (snd (convert_docx_to_pdf (env_of ''id1'' soffice_ok) (Some upload_plain) world_bare))
        ''id1'' =
     Some (processing_job\<lparr>progress := Some 30\<rparr>)"
  by (simp add: string_defs state_defs handler_defs example_defs)


section \<open>C3: the entries of a batch result\<close>

lemma batch_try_entry_filename:
  "batch_try direction env up w = (Inr e, w') \<Longrightarrow> entry_filename e = filename up"
  by (auto simp: batch_try_def Let_def split: option.splits sum.splits prod.splits)

lemma batch_loop_filenames:
  "map entry_filename (fst (batch_loop direction uploads results w)) =
     map entry_filename results @ filter (\<lambda>n. n \<noteq> []) (map (\<lambda>p. filename (fst p)) uploads)"
proof (induction direction uploads results w rule: batch_loop.induct)
  case (1 direction results w)
  then show ?case by simp
next
  case (2 direction up env rest results w)
  then show ?case
    by (auto split: prod.splits sum.splits dest: batch_try_entry_filename)
qed

text \<open>
  C3 (as the code has it). A batch request with at least one upload is answered with a
  list of results that has one entry for each upload whose file name is not empty, in
  the order of the uploads, and each entry (a completed job or an error with its reason)
  carries the file name of its upload. Uploads with an empty file name are passed over.
\<close>

theorem batch_results_follow_named_uploads:
  assumes "uploads \<noteq> []"
  shows "\<exists>results.
           fst (convert_batch uploads direction_field w) = JsonResults results \<and>
           map entry_filename results =
             filter (\<lambda>n. n \<noteq> []) (map (\<lambda>p. filename (fst p)) uploads)"
  using assms batch_loop_filenames
    [of "case direction_field of None \<Rightarrow> ''docx-to-pdf'' | Some d \<Rightarrow> d" uploads "[]" w]
  by (simp add: convert_batch_def Let_def case_prod_beta)

theorem batch_results_follow_named_uploads_witness:
  "[(upload_plain, env_of ''id1'' soffice_fails), (upload_unnamed, env_of ''id2'' soffice_ok),
    (upload_text, env_of ''id3'' soffice_ok), (upload_upper, env_of ''id4'' soffice_ok)] \<noteq> []
   \<and> fst (convert_batch
        [(upload_plain, env_of ''id1'' soffice_fails), (upload_unnamed, env_of ''id2'' soffice_ok),
         (upload_text, env_of ''id3'' soffice_ok), (upload_upper, env_of ''id4'' soffice_ok)]
        None world0) =
      JsonResults [BatchError ''a.docx'' ''Conversion failed'',
                   BatchError ''b.txt'' ''Invalid file type'',
                   BatchCompleted ''c.DOCX'' ''id4'' ''c.pdf'']"
  using batch_results_follow_named_uploads
    [of "[(upload_plain, env_of ''id1'' soffice_fails), (upload_unnamed, env_of ''id2'' soffice_ok),
          (upload_text, env_of ''id3'' soffice_ok), (upload_upper, env_of ''id4'' soffice_ok)]"
        None world0]
  by (simp add: string_defs state_defs handler_defs example_defs)

text \<open>
  C3 as stated, one entry for each input file, fails for an upload with an empty file
  name: a batch of one such upload is answered with an empty list.
\<close>

theorem batch_skips_unnamed_counterexample:
  "fst (convert_batch [(upload_unnamed, env_of ''id1'' soffice_ok)] None world0) = JsonResults []"
  by (simp add: convert_batch_def upload_unnamed_def)


section \<open>C4 and C5: the archive of a bulk download\<close>

text \<open>
  The path of the archive ends in \<^verbatim>\<open>.zip\<close>, the output file of a completed job in
  \<^verbatim>\<open>.pdf\<close> or \<^verbatim>\<open>.docx\<close>: creating the archive does not change which jobs have their
  output on disk, and the loop reads every completed record without a KeyError.
\<close>

lemma zip_path_last: "last (zip_path z) = CHR ''p''" "zip_path z \<noteq> []"
  by (simp_all add: zip_path_def path_join_def)

lemma job_ok_not_zip:
  "job_ok j \<Longrightarrow> status j = Completed \<Longrightarrow> output_file j = Some out \<Longrightarrow> out \<noteq> zip_path z"
  using zip_path_last [of z] by (auto simp: job_ok_def)

lemma zip_loop_skip:
  assumes "store_ok w" and "\<not> has_artifact w i"
  shows "zip_loop (write_file (zip_path z) (ZipArchive []) w) (i # rest) entries =
         zip_loop (write_file (zip_path z) (ZipArchive []) w) rest entries"
proof (cases "conversion_status w i")
  case None
  then show ?thesis by (simp add: write_file_def)
next
  case (Some st)
  with assms(1) have ok: "job_ok st" by (simp add: store_ok_def)
  show ?thesis
  proof (cases "status st = Completed")
    case False
    with Some show ?thesis by (simp add: write_file_def)
  next
    case True
    with ok obtain out where out: "output_file st = Some out"
      by (auto simp: job_ok_def split: option.splits)
    with ok True have "out \<noteq> zip_path z" by (rule job_ok_not_zip)
    moreover from assms(2) Some True out have "files w out = None"
      by (simp add: has_artifact_def path_exists_def)
    ultimately show ?thesis
      using Some True out by (simp add: write_file_def)
  qed
qed

lemma zip_loop_take:
  assumes "store_ok w" and "conversion_status w c = Some j" and "status j = Completed"
    and "output_file j = Some out" and "files w out = Some content"
    and "original_name j = Some display"
  shows "zip_loop (write_file (zip_path z) (ZipArchive []) w) (c # rest) entries =
         zip_loop (write_file (zip_path z) (ZipArchive []) w) rest
           (entries @ [(display, content)])"
proof -
  from assms(1,2) have "job_ok j" by (simp add: store_ok_def)
  then have "out \<noteq> zip_path z" using assms(3,4) by (rule job_ok_not_zip)
  then show ?thesis using assms by (simp add: write_file_def)
qed

lemma zip_loop_entries:
  assumes "store_ok w" and "conversion_status w c = Some j" and "status j = Completed"
    and "output_file j = Some out" and "files w out = Some content"
    and "original_name j = Some display"
    and "\<forall>i\<in>set ids. i \<noteq> c \<longrightarrow> \<not> has_artifact w i"
  shows "zip_loop (write_file (zip_path z) (ZipArchive []) w) ids entries =
         (None, entries @ replicate (count_list ids c) (display, content))"
  using assms(7)
proof (induction ids arbitrary: entries)
  case Nil
  then show ?case by simp
next
  case (Cons i ids)
  show ?case
  proof (cases "i = c")
    case True
    with Cons show ?thesis
      using zip_loop_take [OF assms(1-6), of z ids entries]
      by (simp del: zip_loop.simps add: replicate_append_same)
  next
    case False
    with Cons.prems have "\<not> has_artifact w i" by simp
    with Cons False show ?thesis
      using zip_loop_skip [OF assms(1), of i z ids entries]
      by (simp del: zip_loop.simps)
  qed
qed

lemma zip_loop_none:
  assumes "store_ok w" and "\<forall>i\<in>set ids. \<not> has_artifact w i"
  shows "zip_loop (write_file (zip_path z) (ZipArchive []) w) ids entries = (None, entries)"
  using assms(2)
proof (induction ids)
  case Nil
  then show ?case by simp
next
  case (Cons i ids)
  then show ?case
    using zip_loop_skip [OF assms(1), of i z ids entries] by (simp del: zip_loop.simps)
qed

lemma write_file_twice [simp]: "write_file p c (write_file p c' w) = write_file p c w"
  by (simp add: write_file_def)

lemma distinct_count_list_one: "distinct xs \<Longrightarrow> x \<in> set xs \<Longrightarrow> count_list xs x = 1"
  by (induction xs) (auto simp: count_list_0_iff)

lemma zip_loop_no_exception:
  assumes "store_ok w"
  shows "fst (zip_loop (write_file (zip_path z) (ZipArchive []) w) ids entries) = None"
proof (induction ids arbitrary: entries)
  case Nil
  then show ?case by simp
next
  case (Cons i ids)
  show ?case
  proof (cases "conversion_status w i")
    case None
    then show ?thesis using Cons.IH by (simp add: write_file_def)
  next
    case (Some st)
    with assms have "job_ok st" by (simp add: store_ok_def)
    then show ?thesis using Some Cons.IH
      by (auto simp: write_file_def job_ok_def split: option.splits if_splits)
  qed
qed

text \<open>
  C4 (as the code has it). In every state the server reaches, a bulk download of a
  list of identifiers that is not empty and of which none resolves to a completed job
  with its output on disk does not fail: it writes an archive without entries and sends
  it. No list of identifiers that is not empty is refused; the empty list, and only it,
  is answered with status 400 and nothing is written.
\<close>

theorem bulk_without_valid_job_sends_empty_archive:
  assumes "reachable w"
  shows "(file_ids \<noteq> [] \<and> (\<forall>i\<in>set file_ids. \<not> has_artifact w i) \<longrightarrow>
            download_bulk zip_id file_ids w =
              (SendFile (zip_path zip_id) ''converted_files.zip'',
               write_file (zip_path zip_id) (ZipArchive []) w))
         \<and> (file_ids \<noteq> [] \<longrightarrow>
              fst (download_bulk zip_id file_ids w) =
                SendFile (zip_path zip_id) ''converted_files.zip'')
         \<and> download_bulk zip_id [] w = (JsonError 400 ''No files specified'', w)"
proof (intro conjI impI)
  assume a: "file_ids \<noteq> [] \<and> (\<forall>i\<in>set file_ids. \<not> has_artifact w i)"
  then have "\<forall>i\<in>set file_ids. \<not> has_artifact w i" by simp
  from zip_loop_none [OF reachable_store_ok [OF assms] this, of zip_id "[]"] a
  show "download_bulk zip_id file_ids w =
      (SendFile (zip_path zip_id) ''converted_files.zip'',
       write_file (zip_path zip_id) (ZipArchive []) w)"
    by (simp add: download_bulk_def Let_def)
next
  assume "file_ids \<noteq> []"
  with zip_loop_no_exception [OF reachable_store_ok [OF assms], of zip_id file_ids "[]"]
  show "fst (download_bulk zip_id file_ids w) =
      SendFile (zip_path zip_id) ''converted_files.zip''"
    by (cases "zip_loop (write_file (zip_path zip_id) (ZipArchive []) w) file_ids []")
      (simp add: download_bulk_def Let_def)
next
  show "download_bulk zip_id [] w = (JsonError 400 ''No files specified'', w)"
    by (simp add: download_bulk_def)
qed

theorem bulk_without_valid_job_sends_empty_archive_witness:
  "reachable world_mixed
   \<and> [''id2'', ''missing''] \<noteq> []
   \<and> \<not> has_artifact world_mixed ''id2'' \<and> \<not> has_artifact world_mixed ''missing''
   \<and> download_bulk ''z1'' [''id2'', ''missing''] world_mixed =
       (SendFile ''converted/z1_converted_files.zip'' ''converted_files.zip'',
        write_file ''converted/z1_converted_files.zip'' (ZipArchive []) world_mixed)
   \<and> [''id1'', ''id2''] \<noteq> []
   \<and> fst (download_bulk ''z1'' [''id1'', ''id2''] world_mixed) =
       SendFile ''converted/z1_converted_files.zip'' ''converted_files.zip''
   \<and> download_bulk ''z1'' [] world_mixed = (JsonError 400 ''No files specified'', world_mixed)"
proof -
  have a: "\<forall>i\<in>set [''id2'', ''missing'']. \<not> has_artifact world_mixed i"
    by (simp add: has_artifact_def world_mixed_status error_job_def)
  show ?thesis
    using a reachable_world_mixed
      bulk_without_valid_job_sends_empty_archive
        [OF reachable_world_mixed, of "[''id2'', ''missing'']" "''z1''"]
      bulk_without_valid_job_sends_empty_archive
        [OF reachable_world_mixed, of "[''id1'', ''id2'']" "''z1''"]
    by (simp add: zip_path_def path_join_def CONVERTED_FOLDER_def)
qed

text \<open>
  C4 as stated, the operation fails when no identifier is valid, does not hold: on a
  fresh server the one unknown identifier \<^verbatim>\<open>missing\<close> is answered with the archive, which
  is empty.
\<close>

theorem bulk_none_valid_counterexample:
  "\<not> has_artifact world0 ''missing''
   \<and> fst (download_bulk ''z1'' [''missing''] world0) =
       SendFile ''converted/z1_converted_files.zip'' ''converted_files.zip''
   \<and> files (snd (download_bulk ''z1'' [''missing''] world0)) ''converted/z1_converted_files.zip'' =
       Some (ZipArchive [])"
  by (simp add: has_artifact_def string_defs state_defs handler_defs example_defs)

text \<open>
  C5. In every state the server reaches, a bulk download of the three identifiers of a
  completed job with its output on disk, of no job at all, and of a failed job, in any
  order, succeeds, and the archive holds exactly one entry: the content of the completed
  job's output file under the job's display name.
\<close>

theorem bulk_one_completed_job:
  assumes "reachable w"
    and "conversion_status w c = Some j" and "status j = Completed"
    and "output_file j = Some out" and "files w out = Some content"
    and "original_name j = Some display"
    and "conversion_status w u = None"
    and "conversion_status w f = Some jf" and "status jf = Error"
    and "distinct file_ids" and "set file_ids = {c, u, f}"
  shows "download_bulk zip_id file_ids w =
           (SendFile (zip_path zip_id) ''converted_files.zip'',
            write_file (zip_path zip_id) (ZipArchive [(display, content)]) w)"
proof -
  have "\<forall>i\<in>set file_ids. i \<noteq> c \<longrightarrow> \<not> has_artifact w i"
    using assms(7,8,9,11) by (auto simp: has_artifact_def)
  then have "zip_loop (write_file (zip_path zip_id) (ZipArchive []) w) file_ids [] =
      (None, [] @ replicate (count_list file_ids c) (display, content))"
    by (rule zip_loop_entries [OF reachable_store_ok [OF assms(1)] assms(2-6)])
  moreover have "count_list file_ids c = 1"
    using assms(10,11) by (simp add: distinct_count_list_one)
  moreover have "file_ids \<noteq> []" using assms(11) by auto
  ultimately show ?thesis by (simp add: download_bulk_def Let_def)
qed

theorem bulk_one_completed_job_witness:
  "reachable world_mixed
   \<and> conversion_status world_mixed ''id1'' = Some (completed_job ''converted/id1_a.pdf'' ''a.pdf'')
   \<and> files world_mixed ''converted/id1_a.pdf'' = Some (Data ''converted'')
   \<and> conversion_status world_mixed ''missing'' = None
   \<and> conversion_status world_mixed ''id2'' = Some (error_job ''Conversion failed'')
   \<and> download_bulk ''z1'' [''id1'', ''missing'', ''id2''] world_mixed =
       (SendFile ''converted/z1_converted_files.zip'' ''converted_files.zip'',
        write_file ''converted/z1_converted_files.zip''
          (ZipArchive [(''a.pdf'', Data ''converted'')]) world_mixed)"
proof -
  let ?j = "completed_job ''converted/id1_a.pdf'' ''a.pdf''"
  have a: "conversion_status world_mixed ''id1'' = Some ?j"
    by (simp add: world_mixed_status)
  have b: "status ?j = Completed" "output_file ?j = Some ''converted/id1_a.pdf''"
    "original_name ?j = Some ''a.pdf''"
    by (simp_all add: completed_job_def)
  have c: "files world_mixed ''converted/id1_a.pdf'' = Some (Data ''converted'')"
    by (simp add: world_mixed_files)
  have d: "conversion_status world_mixed ''missing'' = None"
    by (simp add: world_mixed_status)
  have e: "conversion_status world_mixed ''id2'' = Some (error_job ''Conversion failed'')"
    by (simp add: world_mixed_status)
  have f: "status (error_job ''Conversion failed'') = Error"
    by (simp add: error_job_def)
  have g: "distinct [''id1'', ''missing'', ''id2'']"
    by simp
  have h: "set [''id1'', ''missing'', ''id2''] = {''id1'', ''missing'', ''id2''}"
    by simp
  show ?thesis
    using a c d e reachable_world_mixed
      bulk_one_completed_job [OF reachable_world_mixed a b(1) b(2) c b(3) d e f g h, of "''z1''"]
    by (simp add: zip_path_def path_join_def CONVERTED_FOLDER_def)
qed


section \<open>C6: the outcomes of the converter gateway\<close>

text \<open>
  C6 (as the code has it). \<^const>\<open>convert_with_libreoffice\<close> has two failing outcomes and
  no other. It raises \<^verbatim>\<open>FileNotFoundError\<close>, and does nothing else, when no LibreOffice
  executable is found (none, or an empty path). It returns \<open>None\<close>, one and the same
  value, when the process runs into the timeout of 60 seconds, when running it raises any
  other exception, when it ends with a return code other than 0, and when it ends with 0
  but the expected output file is not there; in these four cases the state after the call
  is what the process left, with one line added to the console, and the line is all that
  tells them apart. With code 0 and the file there it returns the path of the file and
  prints nothing.
\<close>

theorem gateway_outcomes:
  "(find_libreoffice env w = None \<or> find_libreoffice env w = Some [] \<longrightarrow>
      convert_with_libreoffice env inp outdir fmt w =
        (Inl (FileNotFoundError not_found_message), w))
   \<and> (find_libreoffice env w = Some exe \<and> exe \<noteq> [] \<and>
      run_soffice env (soffice_cmd exe inp outdir fmt) 60 = (written, TimeoutExpired) \<longrightarrow>
      convert_with_libreoffice env inp outdir fmt w =
        (Inr None, print_line ''Conversion timeout'' (write_all written w)))
   \<and> (find_libreoffice env w = Some exe \<and> exe \<noteq> [] \<and>
      run_soffice env (soffice_cmd exe inp outdir fmt) 60 = (written, RunRaised e) \<longrightarrow>
      convert_with_libreoffice env inp outdir fmt w =
        (Inr None, print_line (''Conversion error: '' @ e) (write_all written w)))
   \<and> (find_libreoffice env w = Some exe \<and> exe \<noteq> [] \<and>
      run_soffice env (soffice_cmd exe inp outdir fmt) 60 =
        (written, CompletedProcess code err) \<and> code \<noteq> 0 \<longrightarrow>
      convert_with_libreoffice env inp outdir fmt w =
        (Inr None, print_line (''LibreOffice conversion error: '' @ err) (write_all written w)))
   \<and> (find_libreoffice env w = Some exe \<and> exe \<noteq> [] \<and>
      run_soffice env (soffice_cmd exe inp outdir fmt) 60 =
        (written, CompletedProcess 0 err) \<and>
      \<not> path_exists (write_all written w) (path_join outdir (path_stem inp @ ''.'' @ fmt)) \<longrightarrow>
      convert_with_libreoffice env inp outdir fmt w =
        (Inr None,
         print_line
           (''Converted file not found: '' @ path_join outdir (path_stem inp @ ''.'' @ fmt))
           (write_all written w)))
   \<and> (find_libreoffice env w = Some exe \<and> exe \<noteq> [] \<and>
      run_soffice env (soffice_cmd exe inp outdir fmt) 60 =
        (written, CompletedProcess 0 err) \<and>
      path_exists (write_all written w) (path_join outdir (path_stem inp @ ''.'' @ fmt)) \<longrightarrow>
      convert_with_libreoffice env inp outdir fmt w =
        (Inr (Some (path_join outdir (path_stem inp @ ''.'' @ fmt))), write_all written w))
   \<and> (fst (convert_with_libreoffice env inp outdir fmt w) =
        Inl (FileNotFoundError not_found_message)
      \<or> fst (convert_with_libreoffice env inp outdir fmt w) = Inr None
      \<or> fst (convert_with_libreoffice env inp outdir fmt w) =
          Inr (Some (path_join outdir (path_stem inp @ ''.'' @ fmt))))"
  by (auto simp: convert_with_libreoffice_def Let_def
        split: prod.splits option.splits run_result.splits)

lemma find_libreoffice_world0: "find_libreoffice env world0 = Some ''/usr/local/bin/soffice''"
  by (simp add: find_libreoffice_def possible_paths_def path_exists_def world0_def)

lemma find_libreoffice_world_bare: "find_libreoffice (env_of i r) world_bare = None"
  by (simp add: find_libreoffice_def possible_paths_def path_exists_def world_bare_def env_of_def)

lemma find_libreoffice_blank: "find_libreoffice env_blank world_bare = Some []"
  by (simp add: find_libreoffice_def possible_paths_def path_exists_def world_bare_def
        env_blank_def env_of_def strip_def is_space_def)

theorem gateway_outcomes_witness:
  "find_libreoffice (env_of ''id1'' soffice_ok) world_bare = None
   \<and> convert_with_libreoffice (env_of ''id1'' soffice_ok) ''uploads/id1_a.docx''
       CONVERTED_FOLDER ''pdf'' world_bare =
       (Inl (FileNotFoundError not_found_message), world_bare)
   \<and> find_libreoffice env_blank world_bare = Some []
   \<and> convert_with_libreoffice env_blank ''uploads/id1_a.docx'' CONVERTED_FOLDER ''pdf''
       world_bare =
       (Inl (FileNotFoundError not_found_message), world_bare)
   \<and> find_libreoffice (env_of ''id1'' soffice_hangs) world0 = Some ''/usr/local/bin/soffice''
   \<and> soffice_hangs
        (soffice_cmd ''/usr/local/bin/soffice'' ''uploads/id1_a.docx'' CONVERTED_FOLDER ''pdf'')
        60 = ([], TimeoutExpired)
   \<and> convert_with_libreoffice (env_of ''id1'' soffice_hangs) ''uploads/id1_a.docx''
       CONVERTED_FOLDER ''pdf'' world0 =
       (Inr None, print_line ''Conversion timeout'' world0)
   \<and> soffice_crashes
        (soffice_cmd ''/usr/local/bin/soffice'' ''uploads/id1_a.docx'' CONVERTED_FOLDER ''pdf'')
        60 = ([], RunRaised ''[Errno 8] Exec format error'')
   \<and> convert_with_libreoffice (env_of ''id1'' soffice_crashes) ''uploads/id1_a.docx''
       CONVERTED_FOLDER ''pdf'' world0 =
       (Inr None, print_line ''Conversion error: [Errno 8] Exec format error'' world0)
   \<and> soffice_fails
        (soffice_cmd ''/usr/local/bin/soffice'' ''uploads/id1_a.docx'' CONVERTED_FOLDER ''pdf'')
        60 = ([], CompletedProcess 1 ''Error: source file could not be loaded'')
   \<and> convert_with_libreoffice (env_of ''id1'' soffice_fails) ''uploads/id1_a.docx''
       CONVERTED_FOLDER ''pdf'' world0 =
       (Inr None,
        print_line ''LibreOffice conversion error: Error: source file could not be loaded''
          world0)
   \<and> soffice_silent
        (soffice_cmd ''/usr/local/bin/soffice'' ''uploads/id1_a.docx'' CONVERTED_FOLDER ''pdf'')
        60 = ([], CompletedProcess 0 [])
   \<and> \<not> path_exists world0 ''converted/id1_a.pdf''
   \<and> convert_with_libreoffice (env_of ''id1'' soffice_silent) ''uploads/id1_a.docx''
       CONVERTED_FOLDER ''pdf'' world0 =
       (Inr None, print_line ''Converted file not found: converted/id1_a.pdf'' world0)
   \<and> soffice_ok
        (soffice_cmd ''/usr/local/bin/soffice'' ''uploads/id1_a.docx'' CONVERTED_FOLDER ''pdf'')
        60 = ([(''converted/id1_a.pdf'', Data ''converted'')], CompletedProcess 0 [])
   \<and> path_exists (write_file ''converted/id1_a.pdf'' (Data ''converted'') world0)
        ''converted/id1_a.pdf''
   \<and> convert_with_libreoffice (env_of ''id1'' soffice_ok) ''uploads/id1_a.docx''
       CONVERTED_FOLDER ''pdf'' world0 =
       (Inr (Some ''converted/id1_a.pdf''),
        write_file ''converted/id1_a.pdf'' (Data ''converted'') world0)"
proof -
  let ?inp = "''uploads/id1_a.docx''"
  let ?exe = "''/usr/local/bin/soffice''"
  let ?cmd = "soffice_cmd ?exe ?inp CONVERTED_FOLDER ''pdf''"
  let ?out = "path_join CONVERTED_FOLDER (path_stem ?inp @ ''.'' @ ''pdf'')"
  have exe: "?exe \<noteq> []" by simp
  have out: "?out = ''converted/id1_a.pdf''"
    "path_join CONVERTED_FOLDER (path_stem ?inp @ ''.pdf'') = ''converted/id1_a.pdf''"
    by (simp_all add: string_defs)
  have bare: "find_libreoffice (env_of ''id1'' soffice_ok) world_bare = None"
    by (rule find_libreoffice_world_bare)
  have blank: "find_libreoffice env_blank world_bare = Some []"
    by (rule find_libreoffice_blank)
  have found: "find_libreoffice (env_of ''id1'' r) world0 = Some ?exe" for r
    by (rule find_libreoffice_world0)
  have hangs: "soffice_hangs ?cmd 60 = ([], TimeoutExpired)"
    by (simp add: soffice_hangs_def)
  have crashes: "soffice_crashes ?cmd 60 = ([], RunRaised ''[Errno 8] Exec format error'')"
    by (simp add: soffice_crashes_def)
  have fails: "soffice_fails ?cmd 60 =
      ([], CompletedProcess 1 ''Error: source file could not be loaded'')"
    by (simp add: soffice_fails_def)
  have silent: "soffice_silent ?cmd 60 = ([], CompletedProcess 0 [])"
    by (simp add: soffice_silent_def)
  have ok: "soffice_ok ?cmd 60 =
      ([(''converted/id1_a.pdf'', Data ''converted'')], CompletedProcess 0 [])"
    by (simp add: soffice_cmd_def string_defs)
  have run: "run_soffice (env_of ''id1'' r) = r" for r
    by (simp add: env_of_def)
  have absent: "\<not> path_exists world0 ''converted/id1_a.pdf''"
    by (simp add: world0_def path_exists_def)
  have present: "path_exists (write_file ''converted/id1_a.pdf'' (Data ''converted'') world0)
      ''converted/id1_a.pdf''"
    by (simp add: write_file_def path_exists_def)
  have one: "(1::int) \<noteq> 0" by simp
  have c0: "convert_with_libreoffice (env_of ''id1'' soffice_ok) ?inp CONVERTED_FOLDER ''pdf''
      world_bare = (Inl (FileNotFoundError not_found_message), world_bare)"
    using bare gateway_outcomes
      [of "env_of ''id1'' soffice_ok" world_bare ?inp CONVERTED_FOLDER "''pdf''"]
    by simp
  have c1: "convert_with_libreoffice env_blank ?inp CONVERTED_FOLDER ''pdf'' world_bare =
      (Inl (FileNotFoundError not_found_message), world_bare)"
    using blank gateway_outcomes [of env_blank world_bare ?inp CONVERTED_FOLDER "''pdf''"]
    by simp
  have c2: "convert_with_libreoffice (env_of ''id1'' soffice_hangs) ?inp CONVERTED_FOLDER
      ''pdf'' world0 = (Inr None, print_line ''Conversion timeout'' (write_all [] world0))"
    using gateway_outcomes
      [of "env_of ''id1'' soffice_hangs" world0 ?inp CONVERTED_FOLDER "''pdf''" ?exe "[]"]
      found [of soffice_hangs] exe hangs run [of soffice_hangs]
    by simp
  have c3: "convert_with_libreoffice (env_of ''id1'' soffice_crashes) ?inp CONVERTED_FOLDER
      ''pdf'' world0 =
      (Inr None,
       print_line (''Conversion error: '' @ ''[Errno 8] Exec format error'')
         (write_all [] world0))"
    using gateway_outcomes
      [of "env_of ''id1'' soffice_crashes" world0 ?inp CONVERTED_FOLDER "''pdf''" ?exe "[]"
          "''[Errno 8] Exec format error''"]
      found [of soffice_crashes] exe crashes run [of soffice_crashes]
    by simp
  have c4: "convert_with_libreoffice (env_of ''id1'' soffice_fails) ?inp CONVERTED_FOLDER
      ''pdf'' world0 =
      (Inr None,
       print_line
         (''LibreOffice conversion error: '' @ ''Error: source file could not be loaded'')
         (write_all [] world0))"
    using gateway_outcomes
      [of "env_of ''id1'' soffice_fails" world0 ?inp CONVERTED_FOLDER "''pdf''" ?exe "[]"
          "[]" 1 "''Error: source file could not be loaded''"]
      found [of soffice_fails] exe fails run [of soffice_fails] one
    by simp
  have c5: "convert_with_libreoffice (env_of ''id1'' soffice_silent) ?inp CONVERTED_FOLDER
      ''pdf'' world0 =
      (Inr None,
       print_line (''Converted file not found: '' @ ''converted/id1_a.pdf'')
         (write_all [] world0))"
    using gateway_outcomes
      [of "env_of ''id1'' soffice_silent" world0 ?inp CONVERTED_FOLDER "''pdf''" ?exe "[]"
          "[]" 1 "[]"]
      found [of soffice_silent] exe silent run [of soffice_silent] absent
    by (simp add: out)
  have c6: "convert_with_libreoffice (env_of ''id1'' soffice_ok) ?inp CONVERTED_FOLDER
      ''pdf'' world0 =
      (Inr (Some ''converted/id1_a.pdf''),
       write_all [(''converted/id1_a.pdf'', Data ''converted'')] world0)"
    using gateway_outcomes
      [of "env_of ''id1'' soffice_ok" world0 ?inp CONVERTED_FOLDER "''pdf''" ?exe
          "[(''converted/id1_a.pdf'', Data ''converted'')]" "[]" 1 "[]"]
      found [of soffice_ok] exe ok run [of soffice_ok] present
    by (simp add: out)
  show ?thesis
    using bare c0 blank c1 found [of soffice_hangs] hangs c2 crashes c3 fails c4 silent absent
      c5 ok present c6
    by simp
qed

text \<open>
  C6 as stated, a timeout and a failed conversion are distinct outcomes, does not hold:
  the gateway returns \<open>None\<close> for a process that hangs and for one that ends with code 1,
  and the single-file handler answers both with the same response and stores the same
  record.
\<close>

theorem timeout_same_as_failure_counterexample:
  "fst (convert_with_libreoffice (env_of ''id1'' soffice_hangs) ''uploads/id1_a.docx''
          CONVERTED_FOLDER ''pdf'' world0) = Inr None
   \<and> fst (convert_with_libreoffice (env_of ''id1'' soffice_fails) ''uploads/id1_a.docx''
          CONVERTED_FOLDER ''pdf'' world0) = Inr None
   \<and> fst (convert_docx_to_pdf (env_of ''id1'' soffice_hangs) (Some upload_plain) world0) =
       fst (convert_docx_to_pdf (env_of ''id1'' soffice_fails) (Some upload_plain) world0)
   \<and> conversion_status
        (snd (convert_docx_to_pdf (env_of ''id1'' soffice_hangs) (Some upload_plain) world0)) =
       conversion_status
        (snd (convert_docx_to_pdf (env_of ''id1'' soffice_fails) (Some upload_plain) world0))"
  by (simp add: string_defs state_defs handler_defs example_defs)


section \<open>C7: the display name of a converted document\<close>

lemma docx_try_converted:
  assumes "docx_to_pdf_try env up w = (Inr (JsonConverted file_id display), w')"
  shows "file_id = uuid4 env
         \<and> display = path_stem (secure_filename (nfkd_ascii env) (filename up)) @ ''.pdf''
         \<and> conversion_status w' file_id =
             Some (completed_job (path_join CONVERTED_FOLDER (file_id @ ''_'' @ display)) display)
         \<and> path_exists w' (path_join CONVERTED_FOLDER (file_id @ ''_'' @ display))"
  using assms unfolding docx_to_pdf_try_def Let_def
  by (auto split: option.splits sum.splits prod.splits
        simp: rename_file_def unlink_file_def put_status_def path_exists_def
          path_join_def UPLOAD_FOLDER_def CONVERTED_FOLDER_def)

text \<open>
  C7 (as the code has it). When \<^const>\<open>convert_docx_to_pdf\<close> answers with a completed
  job, for any uploaded name \<^verbatim>\<open>F\<close> and whatever the Unicode normalisation does to it,
  the display name in the answer, in the stored record and offered by
  \<^const>\<open>download_file\<close> is the stem of the sanitised file name,
  \<^verbatim>\<open>secure_filename(F)\<close>, followed by \<^verbatim>\<open>.pdf\<close>; where sanitising leaves the name as
  it is, that is the stem of \<^verbatim>\<open>F\<close> followed by \<^verbatim>\<open>.pdf\<close>.
\<close>

theorem display_name_is_sanitised_stem:
  assumes "convert_docx_to_pdf env (Some up) w = (JsonConverted file_id display, w')"
  shows "display = path_stem (secure_filename (nfkd_ascii env) (filename up)) @ ''.pdf''
         \<and> (\<exists>j. conversion_status w' file_id = Some j \<and> status j = Completed
                \<and> original_name j = Some display)
         \<and> download_file file_id w' =
             SendFile (path_join CONVERTED_FOLDER (file_id @ ''_'' @ display)) display
         \<and> (secure_filename (nfkd_ascii env) (filename up) = filename up \<longrightarrow>
              display = path_stem (filename up) @ ''.pdf'')"
proof -
  from assms have "docx_to_pdf_try env up w = (Inr (JsonConverted file_id display), w')"
    by (auto simp: convert_docx_to_pdf_def split: if_splits prod.splits sum.splits)
  from docx_try_converted [OF this] show ?thesis
    by (auto simp: download_file_def completed_job_def)
qed

theorem display_name_is_sanitised_stem_witness:
  "convert_docx_to_pdf (env_of ''id1'' soffice_ok) (Some upload_plain) world0 =
     (JsonConverted ''id1'' ''a.pdf'', world_done)
   \<and> secure_filename (nfkd_ascii (env_of ''id1'' soffice_ok)) (filename upload_plain) =
       filename upload_plain
   \<and> ''a.pdf'' = path_stem (filename upload_plain) @ ''.pdf''
   \<and> conversion_status world_done ''id1'' =
       Some (completed_job ''converted/id1_a.pdf'' ''a.pdf'')
   \<and> download_file ''id1'' world_done = SendFile ''converted/id1_a.pdf'' ''a.pdf''"
proof -
  have "fst (convert_docx_to_pdf (env_of ''id1'' soffice_ok) (Some upload_plain) world0) =
      JsonConverted ''id1'' ''a.pdf''"
    by (simp add: string_defs state_defs handler_defs example_defs)
  then have a: "convert_docx_to_pdf (env_of ''id1'' soffice_ok) (Some upload_plain) world0 =
      (JsonConverted ''id1'' ''a.pdf'', world_done)"
    by (simp add: world_done_def prod_eq_iff)
  have b: "secure_filename (nfkd_ascii (env_of ''id1'' soffice_ok)) (filename upload_plain) =
      filename upload_plain"
    by (simp add: string_defs example_defs)
  have c: "conversion_status world_done ''id1'' =
      Some (completed_job ''converted/id1_a.pdf'' ''a.pdf'')"
    by (simp add: world_done_eq)
  have d: "''a.pdf'' = path_stem (filename upload_plain) @ ''.pdf''"
    using b display_name_is_sanitised_stem [OF a] by blast
  have "download_file ''id1'' world_done =
      SendFile (path_join CONVERTED_FOLDER (''id1'' @ ''_'' @ ''a.pdf'')) ''a.pdf''"
    using display_name_is_sanitised_stem [OF a] by blast
  then have e: "download_file ''id1'' world_done = SendFile ''converted/id1_a.pdf'' ''a.pdf''"
    by (simp add: path_join_def CONVERTED_FOLDER_def)
  show ?thesis
    using a b c d e by blast
qed

text \<open>
  C7 as stated, the stem of the uploaded name \<^verbatim>\<open>F\<close> itself, fails where sanitising
  changes the name: \<^verbatim>\<open>my report.docx\<close> is offered as \<^verbatim>\<open>my_report.pdf\<close>.
\<close>

theorem display_name_counterexample:
  "fst (convert_docx_to_pdf (env_of ''id1'' soffice_ok) (Some upload_spaced) world0) =
     JsonConverted ''id1'' ''my_report.pdf''
   \<and> download_file ''id1''
       (snd (convert_docx_to_pdf (env_of ''id1'' soffice_ok) (Some upload_spaced) world0)) =
     SendFile ''converted/id1_my_report.pdf'' ''my_report.pdf''
   \<and> path_stem (filename upload_spaced) @ ''.pdf'' = ''my report.pdf''
   \<and> ''my_report.pdf'' \<noteq> path_stem (filename upload_spaced) @ ''.pdf''"
  by (simp add: string_defs state_defs handler_defs example_defs)


section \<open>C8: polling the status\<close>

text \<open>
  C8. For a job that is completed or failed, any number of status queries in a row each
  answer with the same record, and the state after them is the state before them.
\<close>

theorem status_poll_idempotent:
  assumes "conversion_status w file_id = Some j"
    and "status j = Completed \<or> status j = Error"
  shows "poll n file_id w = (replicate n (JsonJob j), w)"
  using assms(1) by (induction n) (simp_all add: get_status_def)

theorem status_poll_idempotent_witness:
  "conversion_status world_mixed ''id2'' = Some (error_job ''Conversion failed'')
   \<and> status (error_job ''Conversion failed'') = Error
   \<and> poll 3 ''id2'' world_mixed =
       ([JsonJob (error_job ''Conversion failed''), JsonJob (error_job ''Conversion failed''),
         JsonJob (error_job ''Conversion failed'')], world_mixed)"
proof -
  have a: "conversion_status world_mixed ''id2'' = Some (error_job ''Conversion failed'')"
    by (simp add: world_mixed_status)
  have b: "status (error_job ''Conversion failed'') = Completed
           \<or> status (error_job ''Conversion failed'') = Error"
    by (simp add: error_job_def)
  show ?thesis
    using a status_poll_idempotent [OF a b, of 3]
    by (simp add: error_job_def numeral_3_eq_3)
qed


section \<open>C9: the staged input file\<close>

text \<open>
  C9. The staged input is to be removed whatever the outcome. The handlers remove it
  after storing \<^const>\<open>completed_job\<close> only; the return after a failed conversion comes
  before the removal. A single \<^verbatim>\<open>a.docx\<close> whose LibreOffice run ends with code 1 is
  answered with 500, its job \<^verbatim>\<open>id1\<close> is stored as failed, and
  \<^verbatim>\<open>uploads/id1_a.docx\<close>, which was not there before the request, is there after it.
\<close>

theorem failed_conversion_keeps_staged_input:
  "fst (convert_docx_to_pdf (env_of ''id1'' soffice_fails) (Some upload_plain) world0) =
     JsonError 500 ''Conversion failed''
   \<and> conversion_status
        (snd (convert_docx_to_pdf (env_of ''id1'' soffice_fails) (Some upload_plain) world0))
        ''id1'' = Some (error_job ''Conversion failed'')
   \<and> files world0 ''uploads/id1_a.docx'' = None
   \<and> files (snd (convert_docx_to_pdf (env_of ''id1'' soffice_fails) (Some upload_plain) world0))
        ''uploads/id1_a.docx'' = Some (Data ''docx bytes'')"
  by (simp add: string_defs state_defs handler_defs example_defs)

text \<open>
  The batch path keeps the file as well. A conversion that is answered as completed has
  removed it.
\<close>

lemma batch_failure_keeps_staged_input:
  "files (snd (convert_batch [(upload_plain, env_of ''id1'' soffice_fails)] None world0))
     ''uploads/id1_a.docx'' = Some (Data ''docx bytes'')"
  by (simp add: string_defs state_defs handler_defs example_defs)

lemma completed_conversion_removes_staged_input:
  assumes "convert_docx_to_pdf env (Some up) w = (JsonConverted file_id display, w')"
  shows "files w'
           (path_join UPLOAD_FOLDER
              (file_id @ ''_'' @ secure_filename (nfkd_ascii env) (filename up))) =
         None"
proof -
  from assms have "docx_to_pdf_try env up w = (Inr (JsonConverted file_id display), w')"
    by (auto simp: convert_docx_to_pdf_def split: if_splits prod.splits sum.splits)
  then show ?thesis
    unfolding docx_to_pdf_try_def Let_def
    by (auto split: option.splits sum.splits prod.splits simp: unlink_file_def)
qed


section \<open>C10: downloading a job whose output file is gone\<close>

text \<open>
  C10. A download of a completed job whose recorded output file is not on disk is
  answered with status 404 and \<^verbatim>\<open>File not found\<close>, the answer an unknown identifier
  gets.
\<close>

theorem download_missing_artifact_404:
  assumes "conversion_status w file_id = Some j"
    and "status j = Completed"
    and "output_file j = Some out"
    and "\<not> path_exists w out"
    and "conversion_status w unknown_id = None"
  shows "download_file file_id w = JsonError 404 ''File not found''
         \<and> download_file unknown_id w = JsonError 404 ''File not found''"
  using assms by (simp add: download_file_def)

theorem download_missing_artifact_404_witness:
  "conversion_status (world_done\<lparr>files := Map.empty\<rparr>) ''id1'' =
     Some (completed_job ''converted/id1_a.pdf'' ''a.pdf'')
   \<and> \<not> path_exists (world_done\<lparr>files := Map.empty\<rparr>) ''converted/id1_a.pdf''
   \<and> conversion_status (world_done\<lparr>files := Map.empty\<rparr>) ''nobody'' = None
   \<and> download_file ''id1'' (world_done\<lparr>files := Map.empty\<rparr>) = JsonError 404 ''File not found''
   \<and> download_file ''nobody'' (world_done\<lparr>files := Map.empty\<rparr>) =
       JsonError 404 ''File not found''"
proof -
  let ?w = "world_done\<lparr>files := Map.empty\<rparr>"
  have a: "conversion_status ?w ''id1'' = Some (completed_job ''converted/id1_a.pdf'' ''a.pdf'')"
    by (simp add: world_done_eq)
  have b: "status (completed_job ''converted/id1_a.pdf'' ''a.pdf'') = Completed"
    by (simp add: completed_job_def)
  have c: "output_file (completed_job ''converted/id1_a.pdf'' ''a.pdf'') =
      Some ''converted/id1_a.pdf''"
    by (simp add: completed_job_def)
  have d: "\<not> path_exists ?w ''converted/id1_a.pdf''"
    by (simp add: path_exists_def)
  have e: "conversion_status ?w ''nobody'' = None"
    by (simp add: world_done_eq)
  show ?thesis
    using a d e download_missing_artifact_404 [OF a b c d e] by simp
qed

end
